theory Spec2Isabelle
  imports
    Main
    "HOL-Library.Multiset"
    "HOL-Library.Char_ord"
    "HOL-Library.List_Lexorder"
begin

section \<open>The tokenization driver \<^verbatim>\<open>tokenize-pop909.py\<close>\<close>

text \<open>
  The script has one function, \<^verbatim>\<open>main(args)\<close>. It prints a banner, globs the data
  directory for \<^verbatim>\<open>*.mid.compound.txt\<close> files, hands the sorted file list as one job to
  a process pool that calls the tokenizer, takes the first statistics tuple of the
  pool's result list and prints a summary with two percentages.

  What \<^verbatim>\<open>main\<close> reads from outside the file is a parameter of the model:
  the constants of \<^verbatim>\<open>anticipation.config\<close> (record \<open>config\<close>), and the file system as
  seen through \<^verbatim>\<open>glob\<close> together with the two tokenizers of
  \<^verbatim>\<open>anticipation.tokenize\<close> (record \<open>env\<close>). What \<^verbatim>\<open>main\<close> does to the outside is
  returned: the lines printed, the tokenizer calls made, and how control left the
  function. Paths follow \<^verbatim>\<open>posixpath\<close>.
\<close>

subsection \<open>Data\<close>

text \<open>The namespace built by the \<^verbatim>\<open>ArgumentParser\<close> of lines 92 to 98.\<close>

record args =
  datadir :: string
  augment :: int
  interarrival :: bool

text \<open>
  The names that \<^verbatim>\<open>from anticipation.config import *\<close> brings in and \<^verbatim>\<open>main\<close>
  uses. The module is not part of the repository; the values are taken as integers.
\<close>

record config =
  DELTA :: int
  MAX_TRACK_TIME_IN_SECONDS :: int
  MIN_TRACK_TIME_IN_SECONDS :: int
  MIN_TRACK_EVENTS :: int
  PREPROC_WORKERS :: int
  M :: int

text \<open>
  One element of \<^verbatim>\<open>starmap_args\<close>: input files, output file, augmentation factor,
  process index. One element of \<^verbatim>\<open>results\<close>: the seven counters unpacked at line 65.
\<close>

type_synonym job = "string list \<times> string \<times> int \<times> int"

type_synonym stats = "int \<times> int \<times> int \<times> int \<times> int \<times> int \<times> int"

datatype py_error =
    ZeroDivisionError
  | OverflowError
  | ValueError
  | TokenizerError string

text \<open>
  The outside world: \<open>glob env p\<close> is the list \<^verbatim>\<open>glob(p)\<close> returns, in the arbitrary
  order of the directory scan; \<open>tokenize env\<close> and \<open>tokenize_ia env\<close> are the imported
  tokenizers, which return a statistics tuple or raise.
\<close>

record env =
  glob :: "string \<Rightarrow> string list"
  tokenize :: "string list \<Rightarrow> string \<Rightarrow> int \<Rightarrow> int \<Rightarrow> py_error + stats"
  tokenize_ia :: "string list \<Rightarrow> string \<Rightarrow> int \<Rightarrow> int \<Rightarrow> py_error + stats"

text \<open>
  A binary64 value is kept as the expression that computes it; its numeric value is
  not modelled. \<open>PyInt\<close> is a Python \<^verbatim>\<open>int\<close>, as the initial \<^verbatim>\<open>rest_ratio = 0\<close> is.
\<close>

datatype pyfloat =
    FloatOfInt int
  | FMul pyfloat pyfloat
  | FDiv pyfloat pyfloat
  | FRound pyfloat int

datatype pynum = PyInt int | PyFloat pyfloat

text \<open>An f-string before formatting: literal text and the values interpolated.\<close>

datatype frag = Lit string | StrV string | IntV int | NumV pynum

type_synonym fstring = "frag list"

text \<open>The local variables of \<^verbatim>\<open>main\<close> at line 77, which lines 78 to 87 print.\<close>

record report =
  seq_count :: int
  rest_count :: int
  too_short :: int
  too_long :: int
  too_manyinstr :: int
  discarded_seqs :: int
  truncations :: int
  rest_ratio :: pynum
  trunc_ratio :: pynum
  trunc_type :: string

text \<open>
  How control leaves \<^verbatim>\<open>main\<close>: the \<^verbatim>\<open>return\<close> of line 32, the \<^verbatim>\<open>return\<close> of line 61,
  falling off the end after the summary, or an exception.
\<close>

datatype exit =
    NoInputFiles
  | EmptyResult
  | Reported report
  | Raised py_error

record outcome =
  stdout :: "fstring list"
  jobs :: "job list"
  calls :: "job list"
  exit :: exit

subsection \<open>Library functions\<close>

text \<open>\<^verbatim>\<open>posixpath.join(a, b)\<close>.\<close>

definition path_join :: "string \<Rightarrow> string \<Rightarrow> string" where
  "path_join a b =
     (if b \<noteq> [] \<and> hd b = CHR ''/'' then b
      else if a = [] \<or> last a = CHR ''/'' then a @ b
      else a @ ''/'' @ b)"

text \<open>\<^verbatim>\<open>sorted\<close> on a list of \<^verbatim>\<open>str\<close>: ascending in the lexicographic order of the characters.\<close>

definition py_sorted :: "string list \<Rightarrow> string list" where
  "py_sorted xs = sort xs"

text \<open>
  \<^verbatim>\<open>float(n)\<close> raises OverflowError when \<open>n\<close>, rounded to 53 bits, does not fit a
  binary64; a division converts an integer divisor the same way and then raises
  ZeroDivisionError on zero.
\<close>

definition float_overflows :: "int \<Rightarrow> bool" where
  "float_overflows n \<longleftrightarrow> \<bar>n\<bar> \<ge> 2 ^ 1024 - 2 ^ 970"

definition py_float :: "int \<Rightarrow> py_error + pyfloat" where
  "py_float n = (if float_overflows n then Inl OverflowError else Inr (FloatOfInt n))"

definition py_truediv :: "pyfloat \<Rightarrow> int \<Rightarrow> py_error + pyfloat" where
  "py_truediv x d =
     (if float_overflows d then Inl OverflowError
      else if d = 0 then Inl ZeroDivisionError
      else Inr (FDiv x (FloatOfInt d)))"

text \<open>
  \<^verbatim>\<open>pool.starmap(func, starmap_args)\<close>: one call of \<^verbatim>\<open>func\<close> per argument tuple, the
  results in the order of the arguments; an exception of a call is raised again.
\<close>

fun pool_starmap :: "(string list \<Rightarrow> string \<Rightarrow> int \<Rightarrow> int \<Rightarrow> py_error + stats) \<Rightarrow> job list
    \<Rightarrow> py_error + stats list" where
  "pool_starmap func [] = Inr []"
| "pool_starmap func ((fs, out, k, idx) # js) =
     (case func fs out k idx of
        Inl e \<Rightarrow> Inl e
      | Inr s \<Rightarrow> (case pool_starmap func js of
                   Inl e \<Rightarrow> Inl e
                 | Inr ss \<Rightarrow> Inr (s # ss)))"

subsection \<open>\<^verbatim>\<open>main\<close>, lines 15 to 25: the banner\<close>

definition encoding :: "args \<Rightarrow> string" where
  "encoding a = (if interarrival a then ''interarrival'' else ''arrival'')"

definition banner :: "config \<Rightarrow> args \<Rightarrow> fstring list" where
  "banner cfg a =
     [ [Lit ''Tokenizing preprocessed MIDI files from: '', StrV (datadir a)],
       [Lit ''  Encoding type: '', StrV (encoding a)],
       [Lit ''Tokenization parameters:''],
       [Lit ''  Anticipation interval = '', IntV (DELTA cfg), Lit ''s''],
       [Lit ''  Augment = '', IntV (augment a), Lit ''x''],
       [Lit ''  Max track length = '', IntV (MAX_TRACK_TIME_IN_SECONDS cfg), Lit ''s''],
       [Lit ''  Min track length = '', IntV (MIN_TRACK_TIME_IN_SECONDS cfg), Lit ''s''],
       [Lit ''  Min track events = '', IntV (MIN_TRACK_EVENTS cfg)] ]"

subsection \<open>Line 28: discovery\<close>

definition input_pattern :: "args \<Rightarrow> string" where
  "input_pattern a = path_join (datadir a) ''*.mid.compound.txt''"

definition discover :: "env \<Rightarrow> args \<Rightarrow> string list" where
  "discover e a = py_sorted (glob e (input_pattern a))"

subsection \<open>Lines 37 to 50: the single job\<close>

definition output_file :: "args \<Rightarrow> string" where
  "output_file a = path_join (datadir a) ''tokenized-events-all.txt''"

definition func :: "env \<Rightarrow> args \<Rightarrow> string list \<Rightarrow> string \<Rightarrow> int \<Rightarrow> int \<Rightarrow> py_error + stats" where
  "func e a = (if interarrival a then tokenize_ia e else tokenize e)"

definition starmap_args :: "args \<Rightarrow> string list \<Rightarrow> job list" where
  "starmap_args a input_files =
     (let current_augment_factor = augment a
      in [(input_files, output_file a, current_augment_factor, 0)])"

subsection \<open>Lines 59 to 89: from the pool's results to the summary\<close>

text \<open>\<^verbatim>\<open>round(100 * float(cnt) / denom, 2)\<close>, evaluated left to right.\<close>

definition percent :: "int \<Rightarrow> int \<Rightarrow> py_error + pynum" where
  "percent cnt denom =
     (case py_float cnt of
        Inl e \<Rightarrow> Inl e
      | Inr f \<Rightarrow>
          (case py_truediv (FMul (FloatOfInt 100) f) denom of
             Inl e \<Rightarrow> Inl e
           | Inr q \<Rightarrow> Inr (PyFloat (FRound q 2))))"

definition duration_or_interarrival :: "args \<Rightarrow> string" where
  "duration_or_interarrival a = (if interarrival a then ''interarrival'' else ''duration'')"

text \<open>Lines 65 to 75: unpack one statistics tuple and compute the two ratios.\<close>

fun make_report :: "config \<Rightarrow> args \<Rightarrow> stats \<Rightarrow> py_error + report" where
  "make_report cfg a (sc, rc, tsh, tlg, tmi, dsc, trc) =
     (if sc > 0 \<and> M cfg > 0 then
        (case percent rc (sc * M cfg) of
           Inl e \<Rightarrow> Inl e
         | Inr rr \<Rightarrow>
             (case percent trc (sc * M cfg) of
                Inl e \<Rightarrow> Inl e
              | Inr tt \<Rightarrow>
                  Inr \<lparr> seq_count = sc, rest_count = rc, too_short = tsh, too_long = tlg,
                        too_manyinstr = tmi, discarded_seqs = dsc, truncations = trc,
                        rest_ratio = rr, trunc_ratio = tt,
                        trunc_type = duration_or_interarrival a \<rparr>))
      else
        Inr \<lparr> seq_count = sc, rest_count = rc, too_short = tsh, too_long = tlg,
              too_manyinstr = tmi, discarded_seqs = dsc, truncations = trc,
              rest_ratio = PyInt 0, trunc_ratio = PyInt 0,
              trunc_type = duration_or_interarrival a \<rparr>)"

text \<open>Lines 78 to 89: the summary.\<close>

definition summary :: "config \<Rightarrow> args \<Rightarrow> report \<Rightarrow> fstring list" where
  "summary cfg a r =
     [ [Lit ''Tokenization complete.''],
       [Lit ''  => Output file: '', StrV (output_file a)],
       [Lit ''  => Processed '', IntV (seq_count r), Lit '' sequences''],
       [Lit ''  => Inserted '', IntV (rest_count r), Lit '' REST tokens ('',
        NumV (rest_ratio r), Lit ''% of events)''],
       [Lit ''  => Discarded '', IntV (too_short r + too_long r), Lit '' event sequences''],
       [Lit ''      - '', IntV (too_short r), Lit '' too short (less than '',
        IntV (MIN_TRACK_EVENTS cfg), Lit '' events or '',
        IntV (MIN_TRACK_TIME_IN_SECONDS cfg), Lit ''s)''],
       [Lit ''      - '', IntV (too_long r), Lit '' too long (more than '',
        IntV (MAX_TRACK_TIME_IN_SECONDS cfg), Lit ''s)''],
       [Lit ''      - '', IntV (too_manyinstr r), Lit '' had too many instruments''],
       [Lit ''  => Discarded '', IntV (discarded_seqs r),
        Lit '' sequences (e.g. empty after filtering)''],
       [Lit ''  => Truncated '', IntV (truncations r), Lit '' '', StrV (trunc_type r),
        Lit '' times ('', NumV (trunc_ratio r), Lit ''% of '', StrV (trunc_type r), Lit ''s)''],
       [Lit ''If this tokenized data is intended for training, remember to shuffle it afterwards.''] ]"

text \<open>
  Lines 59 to 89 as a function of \<^verbatim>\<open>results\<close>: the lines printed and how control
  leaves. Only \<^verbatim>\<open>results[0]\<close> is read.
\<close>

fun report_results :: "config \<Rightarrow> args \<Rightarrow> stats list \<Rightarrow> fstring list \<times> exit" where
  "report_results cfg a [] =
     ([[Lit ''Tokenization did not return any results. This might indicate an issue.'']],
      EmptyResult)"
| "report_results cfg a (s # rest) =
     (case make_report cfg a s of
        Inl e \<Rightarrow> ([], Raised e)
      | Inr r \<Rightarrow> (summary cfg a r, Reported r))"

subsection \<open>\<^verbatim>\<open>main\<close>\<close>

text \<open>
  \<^verbatim>\<open>Pool(processes=PREPROC_WORKERS, ...)\<close> raises ValueError for fewer than one process.
\<close>

definition main :: "config \<Rightarrow> env \<Rightarrow> args \<Rightarrow> outcome" where
  "main cfg e a =
     (let input_files = discover e a in
      if input_files = [] then
        \<lparr> stdout = banner cfg a @
            [[Lit ''No '*.mid.compound.txt' files found in '', StrV (datadir a)]],
          jobs = [], calls = [], exit = NoInputFiles \<rparr>
      else
        (let out1 = banner cfg a @
               [[Lit ''Found '', IntV (int (length input_files)), Lit '' files to process.'']];
             js = starmap_args a input_files
         in if PREPROC_WORKERS cfg < 1 then
              \<lparr> stdout = out1, jobs = js, calls = [], exit = Raised ValueError \<rparr>
            else
              (case pool_starmap (func e a) js of
                 Inl err \<Rightarrow> \<lparr> stdout = out1, jobs = js, calls = js, exit = Raised err \<rparr>
               | Inr results \<Rightarrow>
                   (let (printed, ex) = report_results cfg a results
                    in \<lparr> stdout = out1 @ printed, jobs = js, calls = js, exit = ex \<rparr>))))"

subsection \<open>Reading the counters back; the element-wise sum\<close>

text \<open>The seven counters of a report, in the order of the tuple of line 65.\<close>

definition counters :: "report \<Rightarrow> stats" where
  "counters r = (seq_count r, rest_count r, too_short r, too_long r, too_manyinstr r,
     discarded_seqs r, truncations r)"



subsection \<open>A concrete run\<close>

text \<open>
  A directory \<^verbatim>\<open>d\<close> with three matching files, which the scan lists out of order,
  augmentation factor 2, arrival-time encoding, and a tokenizer that answers with
  100 sequences, 50 rests and 10 truncations; \<^verbatim>\<open>M\<close> is 20.
\<close>

definition example_config :: config where
  "example_config = \<lparr> DELTA = 5, MAX_TRACK_TIME_IN_SECONDS = 3600,
     MIN_TRACK_TIME_IN_SECONDS = 10, MIN_TRACK_EVENTS = 100, PREPROC_WORKERS = 16, M = 20 \<rparr>"

definition example_args :: args where
  "example_args = \<lparr> datadir = ''d'', augment = 2, interarrival = False \<rparr>"

definition example_stats :: stats where
  "example_stats = (100, 50, 1, 2, 5, 7, 10)"

definition example_env :: env where
  "example_env =
     \<lparr> glob = (\<lambda>p. if p = ''d/*.mid.compound.txt''
                   then [''d/c.mid.compound.txt'', ''d/a.mid.compound.txt'', ''d/b.mid.compound.txt'']
                   else []),
       tokenize = (\<lambda>fs out k idx. Inr example_stats),
       tokenize_ia = (\<lambda>fs out k idx. Inr example_stats) \<rparr>"

text \<open>The same directory, scanned in another order.\<close>

definition example_env_rescanned :: env where
  "example_env_rescanned =
     \<lparr> glob = (\<lambda>p. if p = ''d/*.mid.compound.txt''
                   then [''d/b.mid.compound.txt'', ''d/c.mid.compound.txt'', ''d/a.mid.compound.txt'']
                   else []),
       tokenize = (\<lambda>fs out k idx. Inr example_stats),
       tokenize_ia = (\<lambda>fs out k idx. Inr example_stats) \<rparr>"

definition example_report :: report where
  "example_report =
     \<lparr> seq_count = 100, rest_count = 50, too_short = 1, too_long = 2,
       too_manyinstr = 5, discarded_seqs = 7, truncations = 10,
       rest_ratio =
         PyFloat (FRound (FDiv (FMul (FloatOfInt 100) (FloatOfInt 50)) (FloatOfInt 2000)) 2),
       trunc_ratio =
         PyFloat (FRound (FDiv (FMul (FloatOfInt 100) (FloatOfInt 10)) (FloatOfInt 2000)) 2),
       trunc_type = ''duration'' \<rparr>"

section \<open>Properties\<close>

subsection \<open>Auxiliary facts\<close>

lemma make_report_counters: "make_report cfg a s = Inr r \<Longrightarrow> counters r = s"
  by (cases s) (auto simp: counters_def split: if_splits sum.splits)

lemma make_report_trunc_type:
  "make_report cfg a s = Inr r \<Longrightarrow> trunc_type r = duration_or_interarrival a"
  by (cases s) (auto split: if_splits sum.splits)

lemma report_results_Reported:
  "snd (report_results cfg a results) = Reported r \<longleftrightarrow>
     (\<exists>s rest. results = s # rest \<and> make_report cfg a s = Inr r)"
  by (cases results) (auto split: sum.splits)

lemma report_results_Cons_Reported:
  "snd (report_results cfg a (s # rest)) = Reported r \<longleftrightarrow> make_report cfg a s = Inr r"
  by (cases "make_report cfg a s") (simp_all del: make_report.simps)

lemma report_results_fst:
  "snd (report_results cfg a results) = Reported r \<Longrightarrow>
     fst (report_results cfg a results) = summary cfg a r"
  by (cases results) (auto split: sum.splits)


text \<open>The guard of line 70 keeps the divisor positive: no run divides by zero.\<close>

lemma percent_no_zero_division: "d > 0 \<Longrightarrow> percent c d \<noteq> Inl ZeroDivisionError"
  by (auto simp: percent_def py_float_def py_truediv_def split: sum.splits)

lemma make_report_no_zero_division: "make_report cfg a s \<noteq> Inl ZeroDivisionError"
proof (cases s)
  case (fields sc rc tsh tlg tmi dsc trc)
  show ?thesis
  proof (cases "sc > 0 \<and> M cfg > 0")
    case True
    then have "sc * M cfg > 0" by simp
    then have "percent rc (sc * M cfg) \<noteq> Inl ZeroDivisionError"
      "percent trc (sc * M cfg) \<noteq> Inl ZeroDivisionError"
      by (rule percent_no_zero_division)+
    with True fields show ?thesis by (auto split: sum.splits)
  next
    case False
    with fields show ?thesis by auto
  qed
qed

lemma sort_Nil_iff: "sort xs = [] \<longleftrightarrow> xs = []" for xs :: "string list"
  using length_sort[of "\<lambda>x. x" xs] by (auto simp del: length_sort)

lemma discover_Nil: "discover e a = [] \<longleftrightarrow> glob e (input_pattern a) = []"
  unfolding discover_def py_sorted_def by (rule sort_Nil_iff)

lemma discover_mset_cong:
  "mset (glob e' (input_pattern a)) = mset (glob e (input_pattern a)) \<Longrightarrow>
     discover e' a = discover e a"
  unfolding discover_def py_sorted_def
  by (rule properties_for_sort) simp_all

lemma jobs_main:
  "jobs (main cfg e a) = (if discover e a = [] then [] else starmap_args a (discover e a))"
  by (simp add: main_def Let_def split: sum.splits prod.splits)

lemma calls_main:
  "calls (main cfg e a) =
     (if discover e a = [] \<or> PREPROC_WORKERS cfg < 1 then [] else starmap_args a (discover e a))"
  by (simp add: main_def Let_def split: sum.splits prod.splits)

lemma output_file_eq:
  "output_file a =
     (if datadir a = [] \<or> last (datadir a) = CHR ''/''
      then datadir a @ ''tokenized-events-all.txt''
      else datadir a @ ''/'' @ ''tokenized-events-all.txt'')"
  by (simp add: output_file_def path_join_def)

text \<open>
  The pool is handed one job and answers with one result: the list that lines 59 to
  89 read has exactly one element, and the branch of line 59 is never taken.
\<close>

lemma main_dispatch:
  assumes "discover e a \<noteq> []" and "1 \<le> PREPROC_WORKERS cfg"
    and "func e a (discover e a) (output_file a) (augment a) 0 = Inr s"
  shows "main cfg e a =
     \<lparr> stdout = banner cfg a @
         [[Lit ''Found '', IntV (int (length (discover e a))), Lit '' files to process.'']] @
         fst (report_results cfg a [s]),
       jobs = starmap_args a (discover e a),
       calls = starmap_args a (discover e a),
       exit = snd (report_results cfg a [s]) \<rparr>"
  using assms
  by (simp add: main_def Let_def starmap_args_def split: prod.splits del: report_results.simps)

lemma main_exit_not_EmptyResult: "exit (main cfg e a) \<noteq> EmptyResult"
  by (auto simp: main_def Let_def starmap_args_def split: sum.splits prod.splits)

subsection \<open>The concrete run, evaluated\<close>

lemma example_pattern: "input_pattern example_args = ''d/*.mid.compound.txt''"
  by (simp add: input_pattern_def path_join_def example_args_def)

lemma example_glob:
  "glob example_env (input_pattern example_args) =
     [''d/c.mid.compound.txt'', ''d/a.mid.compound.txt'', ''d/b.mid.compound.txt'']"
  by (simp add: example_pattern) (simp add: example_env_def)

lemma example_glob_rescanned:
  "glob example_env_rescanned (input_pattern example_args) =
     [''d/b.mid.compound.txt'', ''d/c.mid.compound.txt'', ''d/a.mid.compound.txt'']"
  by (simp add: example_pattern) (simp add: example_env_rescanned_def)

lemma example_discover:
  "discover example_env example_args =
     [''d/a.mid.compound.txt'', ''d/b.mid.compound.txt'', ''d/c.mid.compound.txt'']"
  unfolding discover_def example_glob py_sorted_def by simp

lemma example_output_file: "output_file example_args = ''d/tokenized-events-all.txt''"
  by (simp add: output_file_def path_join_def example_args_def)

lemma example_make_report:
  "make_report example_config example_args example_stats = Inr example_report"
  by (simp add: example_config_def example_args_def example_stats_def example_report_def
      percent_def py_float_def py_truediv_def float_overflows_def duration_or_interarrival_def)

lemma example_make_report_ia:
  "make_report example_config (example_args\<lparr>interarrival := True\<rparr>) example_stats =
     Inr (example_report\<lparr>trunc_type := ''interarrival''\<rparr>)"
  by (simp add: example_config_def example_args_def example_stats_def example_report_def
      percent_def py_float_def py_truediv_def float_overflows_def duration_or_interarrival_def)

lemma example_main_exit:
  "exit (main example_config example_env example_args) = Reported example_report"
proof -
  have "discover example_env example_args \<noteq> []"
    by (simp add: example_discover)
  moreover have "1 \<le> PREPROC_WORKERS example_config"
    by (simp add: example_config_def)
  moreover have "func example_env example_args (discover example_env example_args)
      (output_file example_args) (augment example_args) 0 = Inr example_stats"
    by (simp add: func_def example_env_def example_args_def)
  ultimately have "exit (main example_config example_env example_args) =
      snd (report_results example_config example_args [example_stats])"
    using main_dispatch[of example_env example_args example_config example_stats]
    by (simp del: report_results.simps)
  then show ?thesis
    by (simp add: example_make_report del: make_report.simps)
qed

section \<open>The claims\<close>

subsection \<open>C1: the counters of the report\<close>




subsection \<open>C2: the single job\<close>

text \<open>
  Claim C2: when the directory has at least one matching file, \<^verbatim>\<open>starmap_args\<close> holds
  exactly one job: its input files are the whole sorted file list, its output file is
  \<^verbatim>\<open>tokenized-events-all.txt\<close> joined to the data directory, its augmentation factor
  is \<^verbatim>\<open>args.augment\<close> and its process index is 0. With a valid pool size that job is
  the one call made. Three files with factor 2 in arrival-time mode give one job with
  factor 2 and three input files.
\<close>

theorem single_job_descriptor:
  assumes "glob e (input_pattern a) \<noteq> []"
  shows "jobs (main cfg e a) =
       [(py_sorted (glob e (input_pattern a)), output_file a, augment a, 0)]
     \<and> output_file a =
         (if datadir a = [] \<or> last (datadir a) = CHR ''/''
          then datadir a @ ''tokenized-events-all.txt''
          else datadir a @ ''/'' @ ''tokenized-events-all.txt'')
     \<and> (1 \<le> PREPROC_WORKERS cfg \<longrightarrow> calls (main cfg e a) = jobs (main cfg e a))"
proof -
  from assms have ne: "discover e a \<noteq> []" by (simp add: discover_Nil)
  then have "jobs (main cfg e a) = [(discover e a, output_file a, augment a, 0)]"
    by (simp add: jobs_main starmap_args_def)
  then have j: "jobs (main cfg e a) =
      [(py_sorted (glob e (input_pattern a)), output_file a, augment a, 0)]"
    by (simp only: discover_def)
  have c: "1 \<le> PREPROC_WORKERS cfg \<longrightarrow> calls (main cfg e a) = jobs (main cfg e a)"
    using ne by (simp add: jobs_main calls_main)
  from j c output_file_eq[of a] show ?thesis by (intro conjI)
qed

theorem single_job_descriptor_witness:
  "glob example_env (input_pattern example_args) \<noteq> []
   \<and> interarrival example_args = False
   \<and> jobs (main example_config example_env example_args) =
       [([''d/a.mid.compound.txt'', ''d/b.mid.compound.txt'', ''d/c.mid.compound.txt''],
         ''d/tokenized-events-all.txt'', 2, 0)]
   \<and> calls (main example_config example_env example_args) =
       [([''d/a.mid.compound.txt'', ''d/b.mid.compound.txt'', ''d/c.mid.compound.txt''],
         ''d/tokenized-events-all.txt'', 2, 0)]"
proof -
  have h: "glob example_env (input_pattern example_args) \<noteq> []"
    by (simp add: example_glob)
  have s: "py_sorted (glob example_env (input_pattern example_args)) =
      [''d/a.mid.compound.txt'', ''d/b.mid.compound.txt'', ''d/c.mid.compound.txt'']"
    using example_discover by (simp only: discover_def)
  have w: "1 \<le> PREPROC_WORKERS example_config"
    by (simp add: example_config_def)
  have k: "augment example_args = 2" "interarrival example_args = False"
    by (simp_all add: example_args_def)
  from single_job_descriptor[OF h, of example_config] h w show ?thesis
    by (simp only: s example_output_file k) simp
qed

subsection \<open>C3: the guard of the ratios\<close>

text \<open>
  Claim C3: when the sequence count of the statistics tuple is 0 or \<^verbatim>\<open>M\<close> is 0, the
  summary is printed with \<^verbatim>\<open>rest_ratio\<close> and \<^verbatim>\<open>trunc_ratio\<close> both the integer 0 they
  were initialised with; no exception is raised.
\<close>

theorem guarded_ratios_zero:
  assumes "sc = 0 \<or> M cfg = 0"
  shows "snd (report_results cfg a ((sc, rc, tsh, tlg, tmi, dsc, trc) # rest)) =
     Reported \<lparr> seq_count = sc, rest_count = rc, too_short = tsh, too_long = tlg,
                too_manyinstr = tmi, discarded_seqs = dsc, truncations = trc,
                rest_ratio = PyInt 0, trunc_ratio = PyInt 0,
                trunc_type = duration_or_interarrival a \<rparr>"
  using assms by auto

theorem guarded_ratios_zero_witness:
  "snd (report_results example_config example_args [(0, 50, 1, 2, 5, 7, 10)]) =
     Reported \<lparr> seq_count = 0, rest_count = 50, too_short = 1, too_long = 2,
                too_manyinstr = 5, discarded_seqs = 7, truncations = 10,
                rest_ratio = PyInt 0, trunc_ratio = PyInt 0, trunc_type = ''duration'' \<rparr>
   \<and> M (example_config\<lparr>M := 0\<rparr>) = 0
   \<and> snd (report_results (example_config\<lparr>M := 0\<rparr>) example_args [example_stats]) =
     Reported \<lparr> seq_count = 100, rest_count = 50, too_short = 1, too_long = 2,
                too_manyinstr = 5, discarded_seqs = 7, truncations = 10,
                rest_ratio = PyInt 0, trunc_ratio = PyInt 0, trunc_type = ''duration'' \<rparr>"
proof -
  have d: "duration_or_interarrival example_args = ''duration''"
    by (simp add: duration_or_interarrival_def example_args_def)
  have m: "M (example_config\<lparr>M := 0\<rparr>) = 0" by simp
  have h1: "(0::int) = 0 \<or> M example_config = 0" by simp
  have h2: "(100::int) = 0 \<or> M (example_config\<lparr>M := 0\<rparr>) = 0" by simp
  from guarded_ratios_zero[OF h1, where a = example_args and rc = 50 and tsh = 1
        and tlg = 2 and tmi = 5 and dsc = 7 and trc = 10 and rest = "[]"]
    guarded_ratios_zero[OF h2, where a = example_args and rc = 50 and tsh = 1
        and tlg = 2 and tmi = 5 and dsc = 7 and trc = 10 and rest = "[]"]
  show ?thesis
    by (simp only: d m example_stats_def)
qed

subsection \<open>C5: discovery is sorted\<close>



subsection \<open>C6: no input files\<close>

text \<open>
  Claim C6: when \<^verbatim>\<open>glob\<close> finds no matching file, \<^verbatim>\<open>main\<close> prints the banner and the
  line \<^verbatim>\<open>No '*.mid.compound.txt' files found in ...\<close>, builds no job, calls no tokenizer
  (so nothing is written) and returns at line 32 without raising.
\<close>

theorem no_input_files_returns:
  assumes "glob e (input_pattern a) = []"
  shows "main cfg e a =
     \<lparr> stdout = banner cfg a @
         [[Lit ''No '*.mid.compound.txt' files found in '', StrV (datadir a)]],
       jobs = [], calls = [], exit = NoInputFiles \<rparr>"
  using assms by (simp add: main_def discover_Nil)

theorem no_input_files_returns_witness:
  "glob example_env (input_pattern (example_args\<lparr>datadir := ''q''\<rparr>)) = []
   \<and> main example_config example_env (example_args\<lparr>datadir := ''q''\<rparr>) =
     \<lparr> stdout = banner example_config (example_args\<lparr>datadir := ''q''\<rparr>) @
         [[Lit ''No '*.mid.compound.txt' files found in '', StrV ''q'']],
       jobs = [], calls = [], exit = NoInputFiles \<rparr>"
proof -
  have h: "glob example_env (input_pattern (example_args\<lparr>datadir := ''q''\<rparr>)) = []"
    by (simp add: input_pattern_def path_join_def example_args_def example_env_def)
  from no_input_files_returns[OF h, of example_config] h show ?thesis by simp
qed

subsection \<open>C7: an empty result list\<close>

text \<open>
  Claim C7: on an empty result list, lines 59 to 61 print the one line
  \<^verbatim>\<open>Tokenization did not return any results. This might indicate an issue.\<close>, print no
  summary and return without raising; no other result list leads to this return.
\<close>

theorem empty_results_returns:
  "report_results cfg a [] =
     ([[Lit ''Tokenization did not return any results. This might indicate an issue.'']],
      EmptyResult)
   \<and> (snd (report_results cfg a results) = EmptyResult \<longleftrightarrow> results = [])"
  by (cases results) (auto split: sum.splits)

theorem empty_results_returns_witness:
  "report_results example_config example_args [] =
     ([[Lit ''Tokenization did not return any results. This might indicate an issue.'']],
      EmptyResult)
   \<and> snd (report_results example_config example_args [example_stats]) \<noteq> EmptyResult"
  using empty_results_returns[of example_config example_args "[example_stats]"]
  by (simp del: report_results.simps)

subsection \<open>C8: the truncation label\<close>

text \<open>
  Claim C8: whenever a summary is printed, the label in its \<^verbatim>\<open>Truncated\<close> line is
  \<^verbatim>\<open>interarrival\<close> exactly when \<^verbatim>\<open>args.interarrival\<close> is set and \<^verbatim>\<open>duration\<close> otherwise,
  whatever the statistics and whichever branch of line 70 ran.
\<close>

theorem trunc_type_label:
  assumes "snd (report_results cfg a results) = Reported r"
  shows "(trunc_type r = ''interarrival'' \<longleftrightarrow> interarrival a)
       \<and> (trunc_type r = ''duration'' \<longleftrightarrow> \<not> interarrival a)
       \<and> fst (report_results cfg a results) ! 9 =
           [Lit ''  => Truncated '', IntV (truncations r), Lit '' '', StrV (trunc_type r),
            Lit '' times ('', NumV (trunc_ratio r), Lit ''% of '', StrV (trunc_type r),
            Lit ''s)'']"
proof -
  from assms obtain s rest where "results = s # rest" "make_report cfg a s = Inr r"
    by (auto simp: report_results_Reported)
  then have "trunc_type r = duration_or_interarrival a"
    by (simp add: make_report_trunc_type)
  moreover have "fst (report_results cfg a results) = summary cfg a r"
    using assms by (rule report_results_fst)
  ultimately show ?thesis
    by (simp add: duration_or_interarrival_def summary_def)
qed

theorem trunc_type_label_witness:
  "snd (report_results example_config (example_args\<lparr>interarrival := True\<rparr>) [example_stats]) =
     Reported (example_report\<lparr>trunc_type := ''interarrival''\<rparr>)
   \<and> interarrival (example_args\<lparr>interarrival := True\<rparr>)
   \<and> trunc_type (example_report\<lparr>trunc_type := ''interarrival''\<rparr>) = ''interarrival''
   \<and> snd (report_results example_config example_args [example_stats]) = Reported example_report
   \<and> \<not> interarrival example_args
   \<and> trunc_type example_report = ''duration''"
proof -
  have h1: "snd (report_results example_config (example_args\<lparr>interarrival := True\<rparr>)
      [example_stats]) = Reported (example_report\<lparr>trunc_type := ''interarrival''\<rparr>)"
    by (simp add: example_make_report_ia del: make_report.simps)
  have h2: "snd (report_results example_config example_args [example_stats]) =
      Reported example_report"
    by (simp add: example_make_report del: make_report.simps)
  have i: "interarrival (example_args\<lparr>interarrival := True\<rparr>)" "\<not> interarrival example_args"
    by (simp_all add: example_args_def)
  from trunc_type_label[OF h1] i(1)
  have "trunc_type (example_report\<lparr>trunc_type := ''interarrival''\<rparr>) = ''interarrival''"
    by blast
  moreover from trunc_type_label[OF h2] i(2)
  have "trunc_type example_report = ''duration''"
    by blast
  ultimately show ?thesis
    using h1 h2 i by (intro conjI)
qed

subsection \<open>C9: the outcome is a function of the directory contents and the arguments\<close>

text \<open>
  Claim C9: two runs with the same configuration and arguments, the same tokenizers
  and the same matching files in the directory, whatever the order in which the scan
  lists them, print the same lines, make the same calls and end the same way, so that
  their reports have identical fields.
\<close>

theorem main_depends_on_directory_contents:
  assumes "mset (glob e' (input_pattern a)) = mset (glob e (input_pattern a))"
    and "tokenize e' = tokenize e" and "tokenize_ia e' = tokenize_ia e"
  shows "main cfg e' a = main cfg e a"
proof -
  have "discover e' a = discover e a"
    using assms(1) by (rule discover_mset_cong)
  moreover have "func e' a = func e a"
    using assms(2,3) by (simp add: func_def)
  ultimately show ?thesis unfolding main_def by (simp only:)
qed

theorem main_depends_on_directory_contents_witness:
  "mset (glob example_env_rescanned (input_pattern example_args)) =
     mset (glob example_env (input_pattern example_args))
   \<and> glob example_env_rescanned (input_pattern example_args) \<noteq>
     glob example_env (input_pattern example_args)
   \<and> main example_config example_env_rescanned example_args =
     main example_config example_env example_args
   \<and> exit (main example_config example_env example_args) = Reported example_report"
proof -
  have p: "mset (glob example_env_rescanned (input_pattern example_args)) =
      mset (glob example_env (input_pattern example_args))"
    by (simp add: example_glob example_glob_rescanned)
  have q: "glob example_env_rescanned (input_pattern example_args) \<noteq>
      glob example_env (input_pattern example_args)"
    by (simp add: example_glob example_glob_rescanned)
  have t: "tokenize example_env_rescanned = tokenize example_env"
    "tokenize_ia example_env_rescanned = tokenize_ia example_env"
    by (simp_all add: example_env_def example_env_rescanned_def)
  from main_depends_on_directory_contents[OF p t, of example_config] p q example_main_exit
  show ?thesis by (intro conjI)
qed

subsection \<open>C10: the total of the first Discarded line\<close>

text \<open>
  Claim C10: the number printed in the line \<^verbatim>\<open>Discarded N event sequences\<close> is the sum of
  the too-short and the too-long counters alone. The too-many-instruments counter is
  printed on its own line below it and the discarded-sequences counter on the line after;
  neither enters the total.
\<close>

theorem discarded_total_line:
  assumes "snd (report_results cfg a ((sc, rc, tsh, tlg, tmi, dsc, trc) # rest)) = Reported r"
  shows "fst (report_results cfg a ((sc, rc, tsh, tlg, tmi, dsc, trc) # rest)) ! 4 =
           [Lit ''  => Discarded '', IntV (tsh + tlg), Lit '' event sequences'']
       \<and> fst (report_results cfg a ((sc, rc, tsh, tlg, tmi, dsc, trc) # rest)) ! 7 =
           [Lit ''      - '', IntV tmi, Lit '' had too many instruments'']
       \<and> fst (report_results cfg a ((sc, rc, tsh, tlg, tmi, dsc, trc) # rest)) ! 8 =
           [Lit ''  => Discarded '', IntV dsc, Lit '' sequences (e.g. empty after filtering)'']"
proof -
  from assms have mk: "make_report cfg a (sc, rc, tsh, tlg, tmi, dsc, trc) = Inr r"
    by (simp only: report_results_Cons_Reported)
  then have "counters r = (sc, rc, tsh, tlg, tmi, dsc, trc)"
    by (rule make_report_counters)
  moreover have "fst (report_results cfg a ((sc, rc, tsh, tlg, tmi, dsc, trc) # rest)) =
      summary cfg a r"
    using assms by (rule report_results_fst)
  ultimately show ?thesis
    by (simp add: counters_def summary_def)
qed

theorem discarded_total_line_witness:
  "snd (report_results example_config example_args [(100, 50, 1, 2, 5, 7, 10)]) =
     Reported example_report
   \<and> fst (report_results example_config example_args [(100, 50, 1, 2, 5, 7, 10)]) ! 4 =
       [Lit ''  => Discarded '', IntV 3, Lit '' event sequences'']
   \<and> fst (report_results example_config example_args [(100, 50, 1, 2, 5, 7, 10)]) ! 7 =
       [Lit ''      - '', IntV 5, Lit '' had too many instruments'']
   \<and> fst (report_results example_config example_args [(100, 50, 1, 2, 5, 7, 10)]) ! 8 =
       [Lit ''  => Discarded '', IntV 7, Lit '' sequences (e.g. empty after filtering)'']"
proof -
  have h: "snd (report_results example_config example_args [(100, 50, 1, 2, 5, 7, 10)]) =
      Reported example_report"
    using example_make_report
    by (simp add: example_stats_def del: make_report.simps)
  have three: "(1::int) + 2 = 3" by simp
  from discarded_total_line[OF h] h show ?thesis
    by (simp only: three)
qed

end
